theory Spec2Isabelle
  imports Complex_Main "HOL-Library.Word"
begin

section \<open>Enumerations of the firmware\<close>

text \<open>The top-level system state of \<^verbatim>\<open>main.cpp\<close> (lines 43-50).\<close>

datatype SystemState =
    SYSTEM_INIT
  | SYSTEM_NORMAL
  | SYSTEM_TUNING_ACTIVE
  | SYSTEM_STEALTH_MODE
  | SYSTEM_ERROR
  | SYSTEM_SHUTDOWN

text \<open>Operating and performance modes of \<^verbatim>\<open>SensorEmulator.h\<close> (lines 25-38).\<close>

datatype OperatingMode =
    MODE_DISABLED
  | MODE_ECO
  | MODE_SPORT
  | MODE_UNLIMITED
  | MODE_STEALTH

datatype PerformanceMode =
    PERFORMANCE_NORMAL
  | PERFORMANCE_REDUCED
  | PERFORMANCE_MAXIMUM

section \<open>The sensor emulator object\<close>

text \<open>
  The integer counters of \<^verbatim>\<open>SignalStats\<close> (\<^verbatim>\<open>SensorEmulator.h\<close>, lines 62-71).
  The struct's float members (averageFrequency, currentSpeed, maxSpeed) and its
  signalQuality score play no part in what follows and are left out.
\<close>

record SignalStats =
  totalPulses :: "32 word"
  validPulses :: "32 word"
  droppedPulses :: "32 word"
  lastPulseTime :: "32 word"

text \<open>
  The members of class \<^verbatim>\<open>SensorEmulator\<close> (lines 75-97) that the modelled
  operations read or write: the statistics, the two mode selections, the capture
  timing variables and the tuning flag. Buffers and float parameters are left out.
\<close>

record SensorEmulator =
  stats :: SignalStats
  currentMode :: OperatingMode
  performanceMode :: PerformanceMode
  lastInputPulse :: "32 word"
  pulseInterval :: "32 word"
  tuningActive :: bool

text \<open>
  Modelled from the spec: the body of \<^verbatim>\<open>SensorEmulator::disableTuning\<close> is not among
  the sources (the header only declares it, line 154). The spec (4.3, 8) says it forces
  the emulator into passthrough, tuning disabled, while the selected OperatingMode may
  stay as it is: the \<^verbatim>\<open>tuningActive\<close> flag is cleared and nothing else changes.
\<close>

definition disableTuning :: "SensorEmulator \<Rightarrow> SensorEmulator" where
  "disableTuning e = e\<lparr>tuningActive := False\<rparr>"

text \<open>
  Modelled from the spec: the body of \<^verbatim>\<open>SensorEmulator::setPerformanceMode\<close> is not
  among the sources (declared at line 149). It is a setter of the \<^verbatim>\<open>performanceMode\<close>
  member (spec 4.3: a temperature warning downgrades PerformanceMode to Reduced).
\<close>

definition setPerformanceMode :: "PerformanceMode \<Rightarrow> SensorEmulator \<Rightarrow> SensorEmulator" where
  "setPerformanceMode m e = e\<lparr>performanceMode := m\<rparr>"

section \<open>The tasks of main.cpp\<close>

text \<open>
  The global \<^verbatim>\<open>currentState\<close> and the module instance \<^verbatim>\<open>sensorEmulator\<close> are the
  state the tasks share. Calls into modules, the serial console, the scheduler and the
  chip are recorded, in program order, as the list of calls one pass of a task makes.
\<close>

record Firmware =
  currentState :: SystemState
  sensorEmulator :: SensorEmulator

datatype call =
    Serial_println string
  | CanBus_processMessages
  | CanBus_sendHeartbeat
  | CanBus_sendShutdownMessage
  | Sensor_processSpeedSignal
  | Sensor_stealthMode
  | Sensor_disableTuning
  | Sensor_setPerformanceMode PerformanceMode
  | ESP_restart
  | TaskDelay nat
  | Delay nat

text \<open>
  \<^verbatim>\<open>SafetyStatus\<close>, the result of \<^verbatim>\<open>safetyMonitor.checkSystemHealth()\<close>: its
  declaration (SafetyMonitor.h) is not among the sources; \<^verbatim>\<open>safetyTask\<close> reads the two
  members below, and a pass of the task takes the value returned to it as an argument.
\<close>

record SafetyStatus =
  criticalError :: bool
  temperatureWarning :: bool

text \<open>
  What the collaborators answer during one pass of \<^verbatim>\<open>loop()\<close>:
  \<^verbatim>\<open>configManager.isTuningEnabled()\<close>, \<^verbatim>\<open>configManager.isStealthModeEnabled()\<close> and
  \<^verbatim>\<open>safetyMonitor.canRecover()\<close>.
\<close>

record Queries =
  isTuningEnabled :: bool
  isStealthModeEnabled :: bool
  canRecover :: bool

text \<open>One pass of the body of the \<^verbatim>\<open>while (true)\<close> of \<^verbatim>\<open>canBusTask\<close> (lines 60-67).\<close>

definition canBusTask :: "Firmware \<Rightarrow> Firmware \<times> call list" where
  "canBusTask fw =
     (fw,
      (if currentState fw = SYSTEM_NORMAL \<or> currentState fw = SYSTEM_TUNING_ACTIVE
       then [CanBus_processMessages, CanBus_sendHeartbeat]
       else [])
      @ [TaskDelay 10])"

text \<open>One pass of the body of the loop of \<^verbatim>\<open>sensorTask\<close> (lines 76-84).\<close>

definition sensorTask :: "Firmware \<Rightarrow> Firmware \<times> call list" where
  "sensorTask fw =
     (fw,
      (if currentState fw = SYSTEM_TUNING_ACTIVE then [Sensor_processSpeedSignal]
       else if currentState fw = SYSTEM_STEALTH_MODE then [Sensor_stealthMode]
       else [])
      @ [TaskDelay 5])"

text \<open>
  One pass of the body of the loop of \<^verbatim>\<open>safetyTask\<close> (lines 93-108), given the status
  that \<^verbatim>\<open>checkSystemHealth()\<close> returned.
\<close>

definition safetyTask :: "SafetyStatus \<Rightarrow> Firmware \<Rightarrow> Firmware \<times> call list" where
  "safetyTask status fw =
     (let (fw1, cs1) =
            (if criticalError status
             then (fw\<lparr>currentState := SYSTEM_ERROR,
                      sensorEmulator := disableTuning (sensorEmulator fw)\<rparr>,
                   [Serial_println ''CRITICAL ERROR: Switching to safe mode'',
                    Sensor_disableTuning])
             else (fw, []));
          (fw2, cs2) =
            (if temperatureWarning status
             then (fw1\<lparr>sensorEmulator :=
                         setPerformanceMode PERFORMANCE_REDUCED (sensorEmulator fw1)\<rparr>,
                   [Serial_println ''Temperature warning - reducing performance'',
                    Sensor_setPerformanceMode PERFORMANCE_REDUCED])
             else (fw1, []))
      in (fw2, cs1 @ cs2 @ [TaskDelay 1000]))"

text \<open>
  How a pass of \<^verbatim>\<open>loop()\<close> ends: it returns to the Arduino core, which calls it again,
  or the chip resets inside \<^verbatim>\<open>ESP.restart()\<close>, which does not return.
\<close>

datatype control = Returned | DeviceRestarted

text \<open>
  One pass of \<^verbatim>\<open>loop()\<close> (lines 249-303). In the shutdown case the statements after
  \<^verbatim>\<open>ESP.restart()\<close>, the \<^verbatim>\<open>break\<close> and the \<^verbatim>\<open>delay(100)\<close>, are never reached.
\<close>

definition loop :: "Queries \<Rightarrow> Firmware \<Rightarrow> control \<times> Firmware \<times> call list" where
  "loop q fw =
     (case currentState fw of
        SYSTEM_INIT \<Rightarrow>
          (Returned, fw\<lparr>currentState := SYSTEM_NORMAL\<rparr>, [Delay 100])
      | SYSTEM_NORMAL \<Rightarrow>
          (if isTuningEnabled q
           then (Returned, fw\<lparr>currentState := SYSTEM_TUNING_ACTIVE\<rparr>,
                 [Serial_println ''Tuning activated'', Delay 100])
           else (Returned, fw, [Delay 100]))
      | SYSTEM_TUNING_ACTIVE \<Rightarrow>
          (if isStealthModeEnabled q
           then (Returned, fw\<lparr>currentState := SYSTEM_STEALTH_MODE\<rparr>,
                 [Serial_println ''Stealth mode activated'', Delay 100])
           else if \<not> isTuningEnabled q
           then (Returned, fw\<lparr>currentState := SYSTEM_NORMAL\<rparr>,
                 [Serial_println ''Tuning deactivated'', Delay 100])
           else (Returned, fw, [Delay 100]))
      | SYSTEM_STEALTH_MODE \<Rightarrow>
          (if \<not> isStealthModeEnabled q
           then (Returned, fw\<lparr>currentState := SYSTEM_TUNING_ACTIVE\<rparr>,
                 [Serial_println ''Stealth mode deactivated'', Delay 100])
           else (Returned, fw, [Delay 100]))
      | SYSTEM_ERROR \<Rightarrow>
          (if canRecover q
           then (Returned, fw\<lparr>currentState := SYSTEM_NORMAL\<rparr>,
                 [Serial_println ''System recovered from error state'', Delay 100])
           else (Returned, fw, [Delay 100]))
      | SYSTEM_SHUTDOWN \<Rightarrow>
          (DeviceRestarted,
           fw\<lparr>sensorEmulator := disableTuning (sensorEmulator fw)\<rparr>,
           [Serial_println ''System shutdown initiated'',
            Sensor_disableTuning,
            CanBus_sendShutdownMessage,
            ESP_restart]))"

text \<open>
  Successive passes of \<^verbatim>\<open>loop()\<close>, one per element of the list of answers, as the
  Arduino core makes them: the run goes on while \<^verbatim>\<open>loop()\<close> returns and ends when the
  chip resets. The result is how the run ended, the state then, and every call made.
\<close>

fun run_loop :: "Queries list \<Rightarrow> Firmware \<Rightarrow> control \<times> Firmware \<times> call list" where
  "run_loop [] fw = (Returned, fw, [])"
| "run_loop (q # qs) fw =
     (case loop q fw of
        (DeviceRestarted, fw', cs) \<Rightarrow> (DeviceRestarted, fw', cs)
      | (Returned, fw', cs) \<Rightarrow>
          (case run_loop qs fw' of (c, fw'', cs') \<Rightarrow> (c, fw'', cs @ cs')))"

text \<open>A concrete emulator and firmware state, used where a closed example is evaluated.\<close>

definition sample_emulator :: SensorEmulator where
  "sample_emulator =
     \<lparr>stats = \<lparr>totalPulses = 0, validPulses = 0, droppedPulses = 0, lastPulseTime = 0\<rparr>,
      currentMode = MODE_SPORT,
      performanceMode = PERFORMANCE_NORMAL,
      lastInputPulse = 0,
      pulseInterval = 0,
      tuningActive = True\<rparr>"

definition firmware_in :: "SystemState \<Rightarrow> Firmware" where
  "firmware_in s = \<lparr>currentState = s, sensorEmulator = sample_emulator\<rparr>"

definition tuning_off_stealth_on :: Queries where
  "tuning_off_stealth_on =
     \<lparr>isTuningEnabled = False, isStealthModeEnabled = True, canRecover = False\<rparr>"

definition critical_status :: SafetyStatus where
  "critical_status = \<lparr>criticalError = True, temperatureWarning = False\<rparr>"

section \<open>The transition rules of the supervisory state machine\<close>

text \<open>
  The rules of section 4.4 of the specification that one pass over the state machine may
  apply, written from the specification's list and not from \<^verbatim>\<open>loop()\<close>:
  \<open>ssm_rule q s s'\<close> holds when a rule allows the move from \<open>s\<close> to \<open>s'\<close> under the
  answers \<open>q\<close>. Where the list would let two rules leave TuningActive at once (stealth
  requested while tuning is switched off), the rule to StealthMode has precedence: the
  rule to Normal carries the condition that stealth is not requested.
\<close>

fun ssm_rule :: "Queries \<Rightarrow> SystemState \<Rightarrow> SystemState \<Rightarrow> bool" where
  "ssm_rule q SYSTEM_INIT SYSTEM_NORMAL = True"
| "ssm_rule q SYSTEM_NORMAL SYSTEM_TUNING_ACTIVE = isTuningEnabled q"
| "ssm_rule q SYSTEM_TUNING_ACTIVE SYSTEM_STEALTH_MODE = isStealthModeEnabled q"
| "ssm_rule q SYSTEM_TUNING_ACTIVE SYSTEM_NORMAL =
     (\<not> isTuningEnabled q \<and> \<not> isStealthModeEnabled q)"
| "ssm_rule q SYSTEM_STEALTH_MODE SYSTEM_TUNING_ACTIVE = (\<not> isStealthModeEnabled q)"
| "ssm_rule q SYSTEM_ERROR SYSTEM_NORMAL = canRecover q"
| "ssm_rule q _ _ = False"

section \<open>Pulse capture and the signal statistics\<close>

text \<open>
  The bodies of \<^verbatim>\<open>SensorEmulator::validateSignal\<close>, \<^verbatim>\<open>updateSignalStats\<close> and
  \<^verbatim>\<open>processInputPulse\<close> are not among the sources (SensorEmulator.h declares them at
  lines 104, 130 and 131). The three definitions below follow section 4.2 of the
  specification; the members they work on are those of the header.
\<close>

text \<open>
  The limits of the plausibility check. The specification names the check and gives no
  values, so they are left open.
\<close>

record PulseBounds =
  minInterval :: "32 word"
  maxInterval :: "32 word"

text \<open>
  Modelled from the spec: \<^verbatim>\<open>validateSignal\<close> (body missing). A capture passes
  validation when its interval is non-zero and within the plausible bounds.
\<close>

definition validateSignal :: "PulseBounds \<Rightarrow> SensorEmulator \<Rightarrow> bool" where
  "validateSignal b e =
     (pulseInterval e \<noteq> 0
      \<and> minInterval b \<le> pulseInterval e
      \<and> pulseInterval e \<le> maxInterval b)"

text \<open>
  Modelled from the spec: \<^verbatim>\<open>updateSignalStats\<close> (body missing). The running counters
  of \<^verbatim>\<open>SignalStats\<close>: every capture counts as a pulse; it counts as valid when it
  passed validation and as dropped when it did not. The members are \<^verbatim>\<open>uint32_t\<close>, so
  the counting is modulo \<open>2 ^ 32\<close>.
\<close>

definition updateSignalStats :: "bool \<Rightarrow> 32 word \<Rightarrow> SignalStats \<Rightarrow> SignalStats" where
  "updateSignalStats ok timestamp s =
     s\<lparr>totalPulses := totalPulses s + 1,
       validPulses := (if ok then validPulses s + 1 else validPulses s),
       droppedPulses := (if ok then droppedPulses s else droppedPulses s + 1),
       lastPulseTime := timestamp\<rparr>"

text \<open>
  Modelled from the spec: \<^verbatim>\<open>processInputPulse\<close> (body missing), the specification's
  \<^verbatim>\<open>onCapture(timestamp)\<close>, called once per detected input edge. The interval to the
  previous capture is taken on the 32-bit clock, so a timestamp that is not later than
  the previous one gives a zero or a wrapped interval.
\<close>

definition processInputPulse ::
    "PulseBounds \<Rightarrow> 32 word \<Rightarrow> SensorEmulator \<Rightarrow> SensorEmulator" where
  "processInputPulse b timestamp e =
     (let e1 = e\<lparr>pulseInterval := timestamp - lastInputPulse e,
                 lastInputPulse := timestamp\<rparr>
      in e1\<lparr>stats := updateSignalStats (validateSignal b e1) timestamp (stats e1)\<rparr>)"

text \<open>A sequence of capture events, given by their timestamps in order of arrival.\<close>

fun captures :: "PulseBounds \<Rightarrow> 32 word list \<Rightarrow> SensorEmulator \<Rightarrow> SensorEmulator" where
  "captures b [] e = e"
| "captures b (t # ts) e = captures b ts (processInputPulse b t e)"

text \<open>
  The invariant (b) of section 3, as the C++ expression
  \<^verbatim>\<open>validPulses + droppedPulses == totalPulses\<close> on \<^verbatim>\<open>uint32_t\<close> members reads.
\<close>

definition counters_consistent :: "SensorEmulator \<Rightarrow> bool" where
  "counters_consistent e =
     (validPulses (stats e) + droppedPulses (stats e) = totalPulses (stats e))"

definition sample_bounds :: PulseBounds where
  "sample_bounds = \<lparr>minInterval = 10, maxInterval = 1000\<rparr>"

section \<open>The Eco transform\<close>

text \<open>
  Modelled from the spec: \<^verbatim>\<open>SensorEmulator::processEcoMode\<close> (declared at line 112 of
  SensorEmulator.h, body missing). Section 4.2: Eco clamps the target speed to a low
  ceiling. The ceiling is an argument here; the header computes on \<^verbatim>\<open>float\<close>, and the
  clamp needs nothing of the speeds but their order, so the definition is given for any
  linearly ordered type of speeds.
\<close>

definition processEcoMode :: "'a::linorder \<Rightarrow> 'a \<Rightarrow> 'a" where
  "processEcoMode limit inputSpeed = (if inputSpeed > limit then limit else inputSpeed)"

section \<open>The connection flag of the protocol handler\<close>

text \<open>\<^verbatim>\<open>BoschSystemStatus\<close> (CANBusHandler.h, lines 53-61).\<close>

record BoschSystemStatus =
  isConnected :: bool
  currentSpeed :: "16 word"
  motorPower :: "8 word"
  batteryLevel :: "8 word"
  assistLevel :: "8 word"
  lastMessageTime :: "32 word"
  errorCode :: "16 word"

text \<open>
  Modelled from the spec: what a successful decode does to the connection bookkeeping
  (the bodies of \<^verbatim>\<open>processMessages\<close> and of the parse functions are missing). Sections
  3 and 8: an accepted frame sets the last-message timestamp and the flag goes back to
  true. The decoded payload fields depend on layouts the specification does not give and
  are left as they are.
\<close>

definition frameAccepted :: "32 word \<Rightarrow> BoschSystemStatus \<Rightarrow> BoschSystemStatus" where
  "frameAccepted timestamp st = st\<lparr>isConnected := True, lastMessageTime := timestamp\<rparr>"

text \<open>
  Modelled from the spec: the staleness half of the specification's \<^verbatim>\<open>tick(now)\<close>
  (section 4.1; there is no function of that name in the header, and the bodies of the
  handler are missing). It recomputes the connected flag from the time elapsed since the
  last received frame: the flag is false once that time exceeds the configured timeout.
  Timestamps are \<^verbatim>\<open>uint32_t\<close> milliseconds, so the elapsed time is taken on the 32-bit
  clock. The heartbeat half of \<^verbatim>\<open>tick\<close> is independent of the flag and is not modelled.
\<close>

definition tick :: "32 word \<Rightarrow> 32 word \<Rightarrow> BoschSystemStatus \<Rightarrow> BoschSystemStatus" where
  "tick timeout now st = st\<lparr>isConnected := \<not> (now - lastMessageTime st > timeout)\<rparr>"

text \<open>
  What the handler sees over time: accepted frames and ticks, each with its timestamp.
  The status after each event is an observation point.
\<close>

datatype bus_event = Accepted "32 word" | Tick "32 word"

fun handle_event :: "32 word \<Rightarrow> bus_event \<Rightarrow> BoschSystemStatus \<Rightarrow> BoschSystemStatus" where
  "handle_event timeout (Accepted t) st = frameAccepted t st"
| "handle_event timeout (Tick now) st = tick timeout now st"

fun handle_events ::
    "32 word \<Rightarrow> bus_event list \<Rightarrow> BoschSystemStatus \<Rightarrow> BoschSystemStatus" where
  "handle_events timeout [] st = st"
| "handle_events timeout (ev # evs) st =
     handle_events timeout evs (handle_event timeout ev st)"

text \<open>
  The timestamp of the last accepted frame of a history, read off the events themselves
  and not off the handler's state.
\<close>

fun last_accepted :: "bus_event list \<Rightarrow> 32 word option" where
  "last_accepted [] = None"
| "last_accepted (Accepted t # evs) =
     (case last_accepted evs of None \<Rightarrow> Some t | Some t' \<Rightarrow> Some t')"
| "last_accepted (Tick now # evs) = last_accepted evs"

definition sample_status :: BoschSystemStatus where
  "sample_status =
     \<lparr>isConnected = False, currentSpeed = 0, motorPower = 0, batteryLevel = 0,
      assistLevel = 0, lastMessageTime = 0, errorCode = 0\<rparr>"

section \<open>Gating of the CAN bus task\<close>

text \<open>
  Claim C9. In a pass of the CAN bus task, message processing and heartbeat transmission
  are performed exactly when the system state is Normal or TuningActive; in every other
  state (Init, StealthMode, Error, Shutdown) the pass makes no call into the CAN handler
  and only waits for its 10 ms period.
\<close>

theorem canBusTask_gated:
  "(CanBus_processMessages \<in> set (snd (canBusTask fw))) =
     (currentState fw = SYSTEM_NORMAL \<or> currentState fw = SYSTEM_TUNING_ACTIVE)
   \<and> (CanBus_sendHeartbeat \<in> set (snd (canBusTask fw))) =
     (currentState fw = SYSTEM_NORMAL \<or> currentState fw = SYSTEM_TUNING_ACTIVE)
   \<and> (if currentState fw = SYSTEM_NORMAL \<or> currentState fw = SYSTEM_TUNING_ACTIVE
      then snd (canBusTask fw) = [CanBus_processMessages, CanBus_sendHeartbeat, TaskDelay 10]
      else snd (canBusTask fw) = [TaskDelay 10])"
  by (simp add: canBusTask_def)

theorem canBusTask_gated_witness:
  "snd (canBusTask (firmware_in SYSTEM_TUNING_ACTIVE)) =
     [CanBus_processMessages, CanBus_sendHeartbeat, TaskDelay 10]
   \<and> snd (canBusTask (firmware_in SYSTEM_STEALTH_MODE)) = [TaskDelay 10]
   \<and> snd (canBusTask (firmware_in SYSTEM_ERROR)) = [TaskDelay 10]
   \<and> snd (canBusTask (firmware_in SYSTEM_SHUTDOWN)) = [TaskDelay 10]"
  using canBusTask_gated [of "firmware_in SYSTEM_TUNING_ACTIVE"]
    canBusTask_gated [of "firmware_in SYSTEM_STEALTH_MODE"]
    canBusTask_gated [of "firmware_in SYSTEM_ERROR"]
    canBusTask_gated [of "firmware_in SYSTEM_SHUTDOWN"]
  by (simp add: firmware_in_def)

section \<open>Critical errors\<close>

text \<open>
  Claim C1. Whenever the health check reports criticalError, the pass of the safety task
  leaves the system state Error and the emulator's tuning disabled, whatever the state
  was before (TuningActive included): the pass calls \<^verbatim>\<open>disableTuning\<close> on the emulator
  and makes no call that selects an operating mode, so the tuning flag is cleared while
  the selected OperatingMode stays as it was.
  On the next cycle the sensor task, finding the state Error, runs neither the tuned nor
  the stealth processing, and the state machine stays in Error as long as the safety
  monitor does not report that recovery is possible.
\<close>

theorem safetyTask_critical_error:
  "criticalError status \<Longrightarrow>
     currentState (fst (safetyTask status fw)) = SYSTEM_ERROR
   \<and> Sensor_disableTuning \<in> set (snd (safetyTask status fw))
   \<and> sensorEmulator (fst (safetyTask status fw)) =
       (if temperatureWarning status
        then setPerformanceMode PERFORMANCE_REDUCED (disableTuning (sensorEmulator fw))
        else disableTuning (sensorEmulator fw))
   \<and> \<not> tuningActive (sensorEmulator (fst (safetyTask status fw)))
   \<and> currentMode (sensorEmulator (fst (safetyTask status fw))) = currentMode (sensorEmulator fw)
   \<and> snd (sensorTask (fst (safetyTask status fw))) = [TaskDelay 5]
   \<and> (\<not> canRecover q \<longrightarrow>
        currentState (fst (snd (loop q (fst (safetyTask status fw))))) = SYSTEM_ERROR)"
  by (simp add: safetyTask_def sensorTask_def loop_def disableTuning_def setPerformanceMode_def)

theorem safetyTask_critical_error_witness:
  "criticalError critical_status
   \<and> tuningActive (sensorEmulator (firmware_in SYSTEM_TUNING_ACTIVE))
   \<and> currentState (fst (safetyTask critical_status (firmware_in SYSTEM_TUNING_ACTIVE)))
       = SYSTEM_ERROR
   \<and> \<not> tuningActive
         (sensorEmulator (fst (safetyTask critical_status (firmware_in SYSTEM_TUNING_ACTIVE))))
   \<and> currentMode
         (sensorEmulator (fst (safetyTask critical_status (firmware_in SYSTEM_TUNING_ACTIVE))))
       = MODE_SPORT
   \<and> currentState
         (fst (snd (loop tuning_off_stealth_on
            (fst (safetyTask critical_status (firmware_in SYSTEM_TUNING_ACTIVE))))))
       = SYSTEM_ERROR"
proof -
  have c: "criticalError critical_status"
    by (simp add: critical_status_def)
  have r: "\<not> canRecover tuning_off_stealth_on"
    by (simp add: tuning_off_stealth_on_def)
  from safetyTask_critical_error
      [OF c, of "firmware_in SYSTEM_TUNING_ACTIVE" tuning_off_stealth_on] c r
  show ?thesis
    by (simp add: firmware_in_def sample_emulator_def critical_status_def
        disableTuning_def setPerformanceMode_def)
qed

section \<open>The step function of the supervisory state machine\<close>

text \<open>
  Claim C2, as stated, sends TuningActive to Normal whenever the tuning-enabled flag is
  false. In \<^verbatim>\<open>loop()\<close> the stealth test comes first: with tuning off and stealth on,
  the pass leaves TuningActive for StealthMode.
\<close>

theorem loop_tuning_off_counterexample:
  "\<not> isTuningEnabled tuning_off_stealth_on
   \<and> currentState (firmware_in SYSTEM_TUNING_ACTIVE) = SYSTEM_TUNING_ACTIVE
   \<and> currentState (fst (snd (loop tuning_off_stealth_on (firmware_in SYSTEM_TUNING_ACTIVE))))
       = SYSTEM_STEALTH_MODE
   \<and> currentState (fst (snd (loop tuning_off_stealth_on (firmware_in SYSTEM_TUNING_ACTIVE))))
       \<noteq> SYSTEM_NORMAL"
  by (simp add: loop_def tuning_off_stealth_on_def firmware_in_def)

text \<open>
  Claim C2, amended. A pass of \<^verbatim>\<open>loop()\<close> changes the system state exactly as the
  rules of section 4.4 say, the rule TuningActive to Normal applying only when stealth is
  not requested: the state after the pass differs from the state before exactly when a
  rule allows the move, and it is then the state that rule names. One pass makes at most
  one move; from Shutdown no move is made.
\<close>

theorem loop_follows_rules:
  "ssm_rule q (currentState fw) s' =
     (s' = currentState (fst (snd (loop q fw))) \<and> s' \<noteq> currentState fw)"
  by (cases "currentState fw"; cases s'; simp add: loop_def; blast?)

theorem loop_follows_rules_witness:
  "ssm_rule tuning_off_stealth_on SYSTEM_TUNING_ACTIVE SYSTEM_STEALTH_MODE
   \<and> \<not> ssm_rule tuning_off_stealth_on SYSTEM_TUNING_ACTIVE SYSTEM_NORMAL
   \<and> currentState (fst (snd (loop tuning_off_stealth_on (firmware_in SYSTEM_TUNING_ACTIVE))))
       = SYSTEM_STEALTH_MODE"
  using loop_follows_rules
    [of tuning_off_stealth_on "firmware_in SYSTEM_TUNING_ACTIVE" SYSTEM_STEALTH_MODE]
  by (simp add: tuning_off_stealth_on_def firmware_in_def)

section \<open>Shutdown\<close>

lemma loop_keeps_running:
  "currentState fw \<noteq> SYSTEM_SHUTDOWN \<Longrightarrow>
     fst (loop q fw) = Returned
   \<and> currentState (fst (snd (loop q fw))) \<noteq> SYSTEM_SHUTDOWN
   \<and> CanBus_sendShutdownMessage \<notin> set (snd (snd (loop q fw)))
   \<and> Sensor_disableTuning \<notin> set (snd (snd (loop q fw)))
   \<and> ESP_restart \<notin> set (snd (snd (loop q fw)))"
  by (cases "currentState fw") (simp_all add: loop_def)

lemma run_loop_quiet:
  "currentState fw \<noteq> SYSTEM_SHUTDOWN \<Longrightarrow>
     fst (run_loop qs fw) = Returned
   \<and> currentState (fst (snd (run_loop qs fw))) \<noteq> SYSTEM_SHUTDOWN
   \<and> CanBus_sendShutdownMessage \<notin> set (snd (snd (run_loop qs fw)))
   \<and> Sensor_disableTuning \<notin> set (snd (snd (run_loop qs fw)))
   \<and> ESP_restart \<notin> set (snd (snd (run_loop qs fw)))"
proof (induction qs arbitrary: fw)
  case Nil
  then show ?case by simp
next
  case (Cons q qs)
  obtain c fw' cs where l: "loop q fw = (c, fw', cs)"
    by (cases "loop q fw") auto
  from loop_keeps_running [OF Cons.prems, of q] l
  have c: "c = Returned" and s: "currentState fw' \<noteq> SYSTEM_SHUTDOWN"
    and n: "CanBus_sendShutdownMessage \<notin> set cs" "Sensor_disableTuning \<notin> set cs"
      "ESP_restart \<notin> set cs"
    by simp_all
  obtain c2 fw2 cs2 where r: "run_loop qs fw' = (c2, fw2, cs2)"
    by (cases "run_loop qs fw'") auto
  from Cons.IH [OF s] r c l n show ?case by simp
qed

text \<open>
  Claim C7. A run of the main loop that meets the state Shutdown makes, in that pass,
  one disable-tuning call, then one transmission of the shutdown frame, then restarts the
  chip, and ends there however many further passes were due: the frame is sent once. A
  run that starts in any other state never sends the shutdown frame, never reaches
  Shutdown and never restarts the chip, so a shutdown frame is only ever sent by a pass
  that finds the state Shutdown.
\<close>

theorem shutdown_sequence_once:
  "(currentState fw = SYSTEM_SHUTDOWN \<longrightarrow>
      run_loop (q # qs) fw =
        (DeviceRestarted,
         fw\<lparr>sensorEmulator := disableTuning (sensorEmulator fw)\<rparr>,
         [Serial_println ''System shutdown initiated'',
          Sensor_disableTuning, CanBus_sendShutdownMessage, ESP_restart]))
   \<and> (currentState fw \<noteq> SYSTEM_SHUTDOWN \<longrightarrow>
        fst (run_loop qs fw) = Returned
      \<and> currentState (fst (snd (run_loop qs fw))) \<noteq> SYSTEM_SHUTDOWN
      \<and> CanBus_sendShutdownMessage \<notin> set (snd (snd (run_loop qs fw)))
      \<and> ESP_restart \<notin> set (snd (snd (run_loop qs fw))))"
proof (intro conjI impI)
  assume "currentState fw = SYSTEM_SHUTDOWN"
  then show "run_loop (q # qs) fw =
        (DeviceRestarted,
         fw\<lparr>sensorEmulator := disableTuning (sensorEmulator fw)\<rparr>,
         [Serial_println ''System shutdown initiated'',
          Sensor_disableTuning, CanBus_sendShutdownMessage, ESP_restart])"
    by (simp add: loop_def)
next
  assume n: "currentState fw \<noteq> SYSTEM_SHUTDOWN"
  from run_loop_quiet [OF n, of qs]
  show "fst (run_loop qs fw) = Returned"
    and "currentState (fst (snd (run_loop qs fw))) \<noteq> SYSTEM_SHUTDOWN"
    and "CanBus_sendShutdownMessage \<notin> set (snd (snd (run_loop qs fw)))"
    and "ESP_restart \<notin> set (snd (snd (run_loop qs fw)))"
    by simp_all
qed

theorem shutdown_sequence_once_witness:
  "count_list
     (snd (snd (run_loop [tuning_off_stealth_on, tuning_off_stealth_on, tuning_off_stealth_on]
        (firmware_in SYSTEM_SHUTDOWN))))
     CanBus_sendShutdownMessage = 1
   \<and> count_list
     (snd (snd (run_loop [tuning_off_stealth_on, tuning_off_stealth_on, tuning_off_stealth_on]
        (firmware_in SYSTEM_SHUTDOWN))))
     Sensor_disableTuning = 1
   \<and> CanBus_sendShutdownMessage \<notin>
       set (snd (snd (run_loop [tuning_off_stealth_on, tuning_off_stealth_on]
         (firmware_in SYSTEM_ERROR))))"
proof -
  have s: "currentState (firmware_in SYSTEM_SHUTDOWN) = SYSTEM_SHUTDOWN"
    and e: "currentState (firmware_in SYSTEM_ERROR) \<noteq> SYSTEM_SHUTDOWN"
    by (simp_all add: firmware_in_def)
  from shutdown_sequence_once
      [of "firmware_in SYSTEM_SHUTDOWN" tuning_off_stealth_on
        "[tuning_off_stealth_on, tuning_off_stealth_on]"] s
    shutdown_sequence_once
      [of "firmware_in SYSTEM_ERROR" tuning_off_stealth_on
        "[tuning_off_stealth_on, tuning_off_stealth_on]"] e
  show ?thesis by simp
qed

section \<open>Who writes the system state\<close>

text \<open>
  Claim C8, as stated, has every pass of the safety monitor task leave the system state
  as it found it. The task assigns \<^verbatim>\<open>currentState = SYSTEM_ERROR\<close> itself (line 98) when
  the health check reports a critical error.
\<close>

theorem safetyTask_writes_state_counterexample:
  "currentState (fst (safetyTask critical_status (firmware_in SYSTEM_NORMAL)))
     \<noteq> currentState (firmware_in SYSTEM_NORMAL)"
  by (simp add: safetyTask_def critical_status_def firmware_in_def)

text \<open>
  Claim C8, amended. A pass of the CAN bus task and a pass of the sensor task leave the
  system state as they found it. A pass of the safety monitor task leaves it as it found
  it unless the health check reports a critical error, and then writes Error.
\<close>

theorem tasks_state_writes:
  "currentState (fst (canBusTask fw)) = currentState fw
   \<and> currentState (fst (sensorTask fw)) = currentState fw
   \<and> currentState (fst (safetyTask status fw))
       = (if criticalError status then SYSTEM_ERROR else currentState fw)"
  by (simp add: canBusTask_def sensorTask_def safetyTask_def)

theorem tasks_state_writes_witness:
  "currentState (fst (canBusTask (firmware_in SYSTEM_STEALTH_MODE))) = SYSTEM_STEALTH_MODE
   \<and> currentState (fst (sensorTask (firmware_in SYSTEM_STEALTH_MODE))) = SYSTEM_STEALTH_MODE
   \<and> currentState (fst (safetyTask critical_status (firmware_in SYSTEM_STEALTH_MODE)))
       = SYSTEM_ERROR"
  using tasks_state_writes [of "firmware_in SYSTEM_STEALTH_MODE" critical_status]
  by (simp add: critical_status_def firmware_in_def)

section \<open>Consistency of the pulse counters\<close>

lemma processInputPulse_consistent:
  "counters_consistent e \<Longrightarrow> counters_consistent (processInputPulse b t e)"
  by (simp add: counters_consistent_def processInputPulse_def updateSignalStats_def Let_def)

text \<open>
  Claim C5. After every sequence of capture events, whatever their timestamps (equal to
  the previous one, or earlier than it), the counters satisfy
  validPulses + droppedPulses = totalPulses, provided they did before the sequence; and a
  capture increments validPulses exactly when it passes validation (non-zero interval
  within the plausible bounds), leaving it as it was otherwise.
\<close>

theorem captures_counters_consistent:
  "counters_consistent e \<Longrightarrow>
     counters_consistent (captures b ts e)
   \<and> validPulses (stats (processInputPulse b t e)) =
       (if t - lastInputPulse e \<noteq> 0
           \<and> minInterval b \<le> t - lastInputPulse e
           \<and> t - lastInputPulse e \<le> maxInterval b
        then validPulses (stats e) + 1
        else validPulses (stats e))"
proof
  assume "counters_consistent e"
  then show "counters_consistent (captures b ts e)"
    by (induction ts arbitrary: e) (simp_all add: processInputPulse_consistent)
next
  show "validPulses (stats (processInputPulse b t e)) =
       (if t - lastInputPulse e \<noteq> 0
           \<and> minInterval b \<le> t - lastInputPulse e
           \<and> t - lastInputPulse e \<le> maxInterval b
        then validPulses (stats e) + 1
        else validPulses (stats e))"
    by (simp add: processInputPulse_def updateSignalStats_def validateSignal_def Let_def)
qed

theorem captures_counters_consistent_witness:
  "counters_consistent sample_emulator
   \<and> counters_consistent (captures sample_bounds [0, 100, 100, 50, 200] sample_emulator)
   \<and> validPulses (stats (processInputPulse sample_bounds 0 sample_emulator)) = 0
   \<and> validPulses (stats (processInputPulse sample_bounds 100 sample_emulator)) = 1"
proof -
  have c: "counters_consistent sample_emulator"
    by (simp add: counters_consistent_def sample_emulator_def)
  from captures_counters_consistent [OF c, of sample_bounds "[0, 100, 100, 50, 200]" 0]
    captures_counters_consistent [OF c, of sample_bounds "[]" 100] c
  show ?thesis
    by (simp add: sample_emulator_def sample_bounds_def)
qed

section \<open>The Eco ceiling\<close>

text \<open>
  Claim C6. In Eco mode with ceiling C the output speed of the Eco transform is at most C
  for every input speed, and equals the input speed for every input speed that is at
  most C.
\<close>

theorem processEcoMode_ceiling:
  "processEcoMode C v \<le> C \<and> (v \<le> C \<longrightarrow> processEcoMode C v = v)"
  by (auto simp: processEcoMode_def)

theorem processEcoMode_ceiling_witness:
  "processEcoMode (25 :: real) 40 \<le> 25
   \<and> (20 :: real) \<le> 25
   \<and> processEcoMode (25 :: real) 20 = 20"
  using processEcoMode_ceiling [of "25 :: real" 40] processEcoMode_ceiling [of "25 :: real" 20]
  by simp

section \<open>The connection flag follows the last accepted frame\<close>

lemma handle_events_append:
  "handle_events timeout (evs @ evs') st =
     handle_events timeout evs' (handle_events timeout evs st)"
  by (induction evs arbitrary: st) simp_all

lemma lastMessageTime_tracks:
  "lastMessageTime (handle_events timeout evs st) =
     (case last_accepted evs of None \<Rightarrow> lastMessageTime st | Some t \<Rightarrow> t)"
proof (induction evs arbitrary: st)
  case Nil
  show ?case by simp
next
  case (Cons ev evs)
  show ?case
    by (cases ev) (simp_all add: Cons.IH frameAccepted_def tick_def split: option.splits)
qed

text \<open>
  Claim C4. Take any history of accepted frames and ticks in which the last accepted
  frame arrived at time t. Whatever came before (earlier successful decodes included),
  the status left by a tick at time now has connected true exactly when the time elapsed
  since t does not exceed the timeout: it is false whenever the elapsed time exceeds the
  timeout window, and it stays true at every tick within the window. The status left by
  the next accepted frame has connected true again.
\<close>

theorem connected_follows_last_frame:
  "last_accepted evs = Some t \<Longrightarrow>
     isConnected (handle_events timeout (evs @ [Tick now]) st) = (now - t \<le> timeout)
   \<and> isConnected (handle_events timeout (evs @ [Accepted t']) st)"
  by (simp add: handle_events_append lastMessageTime_tracks tick_def frameAccepted_def
      not_less)

theorem connected_follows_last_frame_witness:
  "last_accepted [Accepted 100, Tick 150, Accepted 1000, Tick 1200] = Some 1000
   \<and> isConnected
       (handle_events 500 ([Accepted 100, Tick 150, Accepted 1000, Tick 1200] @ [Tick 1500])
          sample_status)
   \<and> \<not> isConnected
       (handle_events 500 ([Accepted 100, Tick 150, Accepted 1000, Tick 1200] @ [Tick 1501])
          sample_status)
   \<and> isConnected
       (handle_events 500
          ([Accepted 100, Tick 150, Accepted 1000, Tick 1200] @ [Accepted 9000])
          sample_status)"
proof -
  have l: "last_accepted [Accepted 100, Tick 150, Accepted 1000, Tick 1200] = Some 1000"
    by simp
  from connected_follows_last_frame [OF l, of 500 1500 sample_status 9000]
    connected_follows_last_frame [OF l, of 500 1501 sample_status 9000] l
  show ?thesis by simp
qed

end
